theory Spec2Isabelle
  imports Main "HOL-Library.Sublist"
begin

section \<open>Python string primitives used by the script\<close>

text \<open>
  Python strings are modelled as \<^typ>\<open>string\<close>. The line feed character
  \<^verbatim>\<open>\n\<close> is \<open>CHR 0x0A\<close>; the separator \<^verbatim>\<open>"\n\n"\<close> of the script
  is \<open>nn\<close>.
\<close>

definition nl :: char where
  "nl = CHR 0x0A"

definition nn :: string where
  "nn = [nl, nl]"

text \<open>
  \<^verbatim>\<open>sep.join(xs)\<close>: the elements of \<open>xs\<close> in order, with \<open>sep\<close> between
  two neighbours.
\<close>

fun join :: "string \<Rightarrow> string list \<Rightarrow> string" where
  "join sep [] = []"
| "join sep [x] = x"
| "join sep (x # y # ys) = x @ sep @ join sep (y # ys)"

text \<open>
  \<^verbatim>\<open>s.split(sep)\<close> for a non-empty separator: the text is scanned from the
  left, each leftmost occurrence of \<open>sep\<close> closes the current fragment and the
  scan continues after it. \<open>split_from sep acc s\<close> is the scan with \<open>acc\<close> the
  fragment read so far. Python raises \<^verbatim>\<open>ValueError\<close> on an empty separator;
  the script only ever passes \<^verbatim>\<open>"\n\n"\<close>, and \<open>split_from\<close> with an empty
  separator returns the text as one fragment.
\<close>

function split_from :: "string \<Rightarrow> string \<Rightarrow> string \<Rightarrow> string list" where
  "split_from sep acc [] = [acc]"
| "split_from sep acc (c # cs) =
     (if sep \<noteq> [] \<and> prefix sep (c # cs)
      then acc # split_from sep [] (drop (length sep) (c # cs))
      else split_from sep (acc @ [c]) cs)"
  by pat_completeness auto
termination
  by (relation "measure (\<lambda>(sep, acc, s). length s)") (auto simp: neq_Nil_conv)

definition split_py :: "string \<Rightarrow> string \<Rightarrow> string list" where
  "split_py s sep = split_from sep [] s"

text \<open>\<^verbatim>\<open>str(i)\<close> for an integer: decimal digits, a minus sign when negative.\<close>

definition digit_char :: "nat \<Rightarrow> char" where
  "digit_char d = char_of (of_char (CHR ''0'') + d)"

fun digits :: "nat \<Rightarrow> string" where
  "digits n = (if n < 10 then [digit_char n] else digits (n div 10) @ [digit_char (n mod 10)])"

declare digits.simps [simp del]

definition str_int :: "int \<Rightarrow> string" where
  "str_int i = (if i < 0 then CHR ''-'' # digits (nat (- i)) else digits (nat i))"

section \<open>Data model\<close>

text \<open>
  The values a chat-history entry holds under a key: a string or \<^verbatim>\<open>None\<close>.
  A conversation turn is a dictionary of which the script reads the keys
  \<^verbatim>\<open>'role'\<close> and \<^verbatim>\<open>'content'\<close>; an absent key is \<open>None\<close> of the option
  type.
\<close>

datatype pyval = PStr string | PNone

record message =
  role :: "pyval option"
  content :: "pyval option"

text \<open>The dictionary kept in \<^verbatim>\<open>st.session_state.output\<close>.\<close>

record session_output =
  assessment :: string
  action :: string
  followup :: string

text \<open>The exceptions of the pipeline, each with its \<^verbatim>\<open>str(e)\<close>.\<close>

datatype py_exception = TypeError string | LibraryError string

fun str_exc :: "py_exception \<Rightarrow> string" where
  "str_exc (TypeError m) = m"
| "str_exc (LibraryError m) = m"

section \<open>Response segmentation (lines 174 to 187)\<close>

text \<open>\<^verbatim>\<open>message.get('role') == 'assistant'\<close>\<close>

definition is_assistant :: "message \<Rightarrow> bool" where
  "is_assistant m = (role m = Some (PStr ''assistant''))"

text \<open>
  \<^verbatim>\<open>message.get('content', '') + "\n\n"\<close>: the default applies to an absent
  key only; a key present with the value \<^verbatim>\<open>None\<close> raises \<^verbatim>\<open>TypeError\<close>.
\<close>

definition quoted :: "string \<Rightarrow> string" where
  "quoted s = CHR 0x27 # s @ [CHR 0x27]"

definition none_plus_str :: py_exception where
  "none_plus_str =
     TypeError (''unsupported operand type(s) for +: '' @ quoted ''NoneType''
                @ '' and '' @ quoted ''str'')"

definition content_block :: "message \<Rightarrow> py_exception + string" where
  "content_block m =
     (case content m of
        None \<Rightarrow> Inr ([] @ nn)
      | Some (PStr s) \<Rightarrow> Inr (s @ nn)
      | Some PNone \<Rightarrow> Inl none_plus_str)"

text \<open>The loop of lines 174 to 177, \<open>acc\<close> being \<^verbatim>\<open>full_response\<close>.\<close>

fun collect :: "string \<Rightarrow> message list \<Rightarrow> py_exception + string" where
  "collect acc [] = Inr acc"
| "collect acc (m # ms) =
     (if is_assistant m
      then (case content_block m of
              Inl e \<Rightarrow> Inl e
            | Inr b \<Rightarrow> collect (acc @ b) ms)
      else collect acc ms)"

definition full_response :: "message list \<Rightarrow> py_exception + string" where
  "full_response conversation = collect [] conversation"

text \<open>Lines 180 to 187: the split and the three positional buckets.\<close>

definition buckets :: "string \<Rightarrow> session_output" where
  "buckets full =
     (let sections = split_py full nn in
      \<lparr> assessment = (if length sections > 0 then sections ! 0 else full),
        action = (if length sections > 1 then sections ! 1 else []),
        followup = (if length sections > 2 then sections ! 2 else []) \<rparr>)"

definition segment :: "message list \<Rightarrow> py_exception + session_output" where
  "segment conversation =
     (case full_response conversation of
        Inl e \<Rightarrow> Inl e
      | Inr full \<Rightarrow> Inr (buckets full))"

section \<open>Prompt formatting (lines 75 to 89)\<close>

text \<open>
  The six collected values. \<^verbatim>\<open>sleep_pattern\<close> is one of the option strings of
  the select slider, \<^verbatim>\<open>stress_level\<close> the integer of the slider, the two
  selections are lists of labels in selection order.
\<close>

record intake_form =
  mental_state :: string
  sleep_pattern :: string
  stress_level :: int
  support_system :: "string list"
  recent_changes :: string
  current_symptoms :: "string list"

text \<open>
  The variables of the script: the six form values and the credential of the
  sidebar.
\<close>

record script_vars = intake_form +
  api_key :: string

text \<open>
  The literal parts of the f-string. Every line of the template is indented by
  sixteen blanks, the text opens with a line feed and closes with the
  indentation of the line that holds the closing quotes.
\<close>

definition ind :: string where
  "ind = replicate 16 (CHR '' '')"

definition seg0 :: string where
  "seg0 = nl # ind @ ''Create a comprehensive mental health support plan based on:''
          @ nl # ind
          @ nl # ind @ ''Emotional State: ''"

definition seg1 :: string where
  "seg1 = nl # ind @ ''Sleep: ''"

definition seg2 :: string where
  "seg2 = '' hours per night'' @ nl # ind @ ''Stress Level: ''"

definition seg3 :: string where
  "seg3 = ''/10'' @ nl # ind @ ''Support System: ''"

definition seg4 :: string where
  "seg4 = nl # ind @ ''Recent Changes: ''"

definition seg5 :: string where
  "seg5 = nl # ind @ ''Current Symptoms: ''"

definition seg6 :: string where
  "seg6 = nl # ind
          @ nl # ind @ ''Please provide a structured response with three sections:''
          @ nl # ind @ ''1. Assessment: Analyze the emotional state and psychological needs''
          @ nl # ind @ ''2. Action Plan: Provide immediate coping strategies and resources''
          @ nl # ind @ ''3. Follow-up Strategy: Design long-term support and prevention plans''
          @ nl # ind"

definition format_task :: "'a intake_form_scheme \<Rightarrow> string" where
  "format_task f =
     seg0 @ mental_state f
     @ seg1 @ sleep_pattern f
     @ seg2 @ str_int (stress_level f)
     @ seg3 @ (if support_system f \<noteq> [] then join '', '' (support_system f)
               else ''None reported'')
     @ seg4 @ recent_changes f
     @ seg5 @ (if current_symptoms f \<noteq> [] then join '', '' (current_symptoms f)
               else ''None reported'')
     @ seg6"

text \<open>
  The rendering of a selection in the words of the specification: the fixed
  text for an empty selection, otherwise the first label followed by every
  further label, each preceded by a comma and a blank.
\<close>

definition spec_rendered_selection :: "string list \<Rightarrow> string" where
  "spec_rendered_selection xs =
     (case xs of
        [] \<Rightarrow> ''None reported''
      | x # rest \<Rightarrow> x @ concat (map (\<lambda>y. '', '' @ y) rest))"

section \<open>The submission handler (lines 68 to 203)\<close>

text \<open>
  What a run of the handler does besides updating the session output, in
  order: the panels it shows and the one call into the orchestration library.
  The two decorative labels start with a pictograph, given here by its UTF-8
  bytes.
\<close>

datatype effect =
    ErrorPanel string
  | Spinner string
  | ChatCall string string
  | Expander string bool
  | Markdown string
  | Success string

definition spinner_label :: string where
  "spinner_label = CHR 0xF0 # CHR 0x9F # CHR 0xA4 # CHR 0x96
                   # '' AI Agents are analyzing your situation...''"

definition success_label :: string where
  "success_label = CHR 0xE2 # CHR 0x9C # CHR 0xA8
                   # '' Mental health support plan generated successfully!''"

text \<open>
  The orchestration library (the construction of the agents, the group chat and
  its manager, \<^verbatim>\<open>initiate_chat\<close> and the read of \<^verbatim>\<open>chat_history\<close>, lines 92
  to 171) is a parameter \<open>chat\<close>: from the credential and the task it returns
  the chat history or raises.
\<close>

type_synonym chat_library = "string \<Rightarrow> string \<Rightarrow> py_exception + message list"

text \<open>Formatting, invocation and segmentation: the body of the try block up to line 187.\<close>

definition pipeline :: "chat_library \<Rightarrow> script_vars \<Rightarrow> py_exception + session_output" where
  "pipeline chat vars =
     (case chat (api_key vars) (format_task vars) of
        Inl e \<Rightarrow> Inl e
      | Inr conversation \<Rightarrow> segment conversation)"

definition display :: "session_output \<Rightarrow> effect list" where
  "display out =
     [Expander ''Situation Assessment'' True, Markdown (assessment out),
      Expander ''Action Plan & Resources'' False, Markdown (action out),
      Expander ''Long-term Support Strategy'' False, Markdown (followup out),
      Success success_label]"

definition get_support_plan ::
  "chat_library \<Rightarrow> script_vars \<Rightarrow> session_output \<Rightarrow> session_output \<times> effect list" where
  "get_support_plan chat vars out =
     (if api_key vars = []
      then (out, [ErrorPanel ''Please enter your OpenAI API key.''])
      else (case pipeline chat vars of
              Inl e \<Rightarrow>
                (out, [Spinner spinner_label,
                       ChatCall (api_key vars) (format_task vars),
                       ErrorPanel (''An error occurred: '' @ str_exc e),
                       ErrorPanel ''Please check your API key and try again.''])
            | Inr out' \<Rightarrow>
                (out', [Spinner spinner_label,
                        ChatCall (api_key vars) (format_task vars)] @ display out')))"

section \<open>Auxiliary notions for the statements\<close>

text \<open>
  A text is \<open>clean\<close> when appending the separator to it creates exactly one
  occurrence of the separator, at the very end: it holds no two consecutive line
  feeds and does not end with a line feed.
\<close>

fun clean_text :: "string \<Rightarrow> bool" where
  "clean_text [] = True"
| "clean_text [c] = (c \<noteq> nl)"
| "clean_text (c # d # cs) = ((c \<noteq> nl \<or> d \<noteq> nl) \<and> clean_text (d # cs))"

text \<open>A turn whose content is absent, or a clean string.\<close>

definition clean_turn :: "message \<Rightarrow> bool" where
  "clean_turn m =
     (case content m of
        None \<Rightarrow> True
      | Some (PStr s) \<Rightarrow> clean_text s
      | Some PNone \<Rightarrow> False)"

text \<open>The text a turn contributes: its content, the empty string when the key is absent.\<close>

definition text_of :: "message \<Rightarrow> string" where
  "text_of m = (case content m of Some (PStr s) \<Rightarrow> s | _ \<Rightarrow> [])"

text \<open>The \<open>i\<close>-th text of a list, the empty string beyond its end.\<close>

definition nth_text :: "string list \<Rightarrow> nat \<Rightarrow> string" where
  "nth_text ts i = (if i < length ts then ts ! i else [])"

text \<open>A turn with a role and a string content, for concrete conversations.\<close>

definition turn :: "string \<Rightarrow> string \<Rightarrow> message" where
  "turn r t = \<lparr> role = Some (PStr r), content = Some (PStr t) \<rparr>"

text \<open>The three turns of the round-trip scenario.\<close>

definition abc_turns :: "message list" where
  "abc_turns = [turn ''assistant'' ''A'', turn ''assistant'' ''B'', turn ''assistant'' ''C'']"

text \<open>Concrete inputs of the handler: a filled form with a credential, and a previous output.\<close>

definition sample_vars :: "string \<Rightarrow> script_vars" where
  "sample_vars key =
     \<lparr> mental_state = ''tired'', sleep_pattern = ''7'', stress_level = 5,
       support_system = [''Family''], recent_changes = ''moved'',
       current_symptoms = [], api_key = key \<rparr>"

definition previous_output :: session_output where
  "previous_output =
     \<lparr> assessment = ''earlier assessment'', action = ''earlier action'',
       followup = ''earlier followup'' \<rparr>"

text \<open>A library run that returns one assistant turn whose content is \<^verbatim>\<open>None\<close>.\<close>

definition none_content_chat :: chat_library where
  "none_content_chat key task =
     Inr [\<lparr> role = Some (PStr ''assistant''), content = Some PNone \<rparr>]"

text \<open>A library run that returns the three turns of the round-trip scenario.\<close>

definition abc_chat :: chat_library where
  "abc_chat key task = Inr abc_turns"

section \<open>Facts about splitting and collecting\<close>

lemma split_from_nonempty: "split_from sep acc s \<noteq> []"
  by (induction sep acc s rule: split_from.induct) auto

lemma collect_filter: "collect acc (filter is_assistant conv) = collect acc conv"
  by (induction conv arbitrary: acc) (auto split: sum.splits)

lemma split_from_clean:
  "clean_text t \<Longrightarrow> split_from nn acc (t @ nn @ rest) = (acc @ t) # split_from nn [] rest"
proof (induction t arbitrary: acc rule: clean_text.induct)
  case 1
  show ?case by (simp add: nn_def)
next
  case (2 c)
  then show ?case by (simp add: nn_def)
next
  case (3 c d cs)
  from 3 have "\<not> prefix nn (c # (d # cs) @ nn @ rest)" by (auto simp: nn_def)
  with 3 show ?case by simp
qed

lemma collect_clean:
  "\<forall>m \<in> set conv. is_assistant m \<longrightarrow> clean_turn m \<Longrightarrow>
   collect acc conv = Inr (acc @ concat (map (\<lambda>m. text_of m @ nn) (filter is_assistant conv)))"
  by (induction conv arbitrary: acc)
     (auto simp: content_block_def clean_turn_def text_of_def split: option.splits pyval.splits)

lemma split_blocks:
  "\<forall>t \<in> set ts. clean_text t \<Longrightarrow>
   split_from nn [] (concat (map (\<lambda>t. t @ nn) ts)) = ts @ [[]]"
proof (induction ts)
  case Nil
  show ?case by simp
next
  case (Cons t ts)
  then show ?case using split_from_clean [of t "[]" "concat (map (\<lambda>t. t @ nn) ts)"] by simp
qed

lemma buckets_of_blocks:
  assumes "\<forall>t \<in> set ts. clean_text t"
  shows "buckets (concat (map (\<lambda>t. t @ nn) ts)) =
         \<lparr> assessment = nth_text ts 0, action = nth_text ts 1, followup = nth_text ts 2 \<rparr>"
proof -
  have pick: "(if i < length (ts @ [[]]) then (ts @ [[]]) ! i else []) = nth_text ts i" for i
  proof (cases "i < length ts")
    case True
    then show ?thesis by (simp add: nth_text_def nth_append)
  next
    case False
    then show ?thesis by (cases "i = length ts") (simp_all add: nth_text_def nth_append)
  qed
  have "split_py (concat (map (\<lambda>t. t @ nn) ts)) nn = ts @ [[]]"
    using split_blocks [OF assms] by (simp add: split_py_def)
  then have "buckets (concat (map (\<lambda>t. t @ nn) ts)) =
      \<lparr> assessment = (if 0 < length (ts @ [[]]) then (ts @ [[]]) ! 0 else []),
        action = (if 1 < length (ts @ [[]]) then (ts @ [[]]) ! 1 else []),
        followup = (if 2 < length (ts @ [[]]) then (ts @ [[]]) ! 2 else []) \<rparr>"
    by (simp add: buckets_def Let_def)
  then show ?thesis
    by (simp only: pick)
qed

lemma comma_prefix:
  "map ((@) '', '') rest = map (\<lambda>y. CHR '','' # CHR '' '' # y) rest"
  by (induction rest) simp_all

lemma join_comma: "join sep (x # rest) = x @ concat (map (\<lambda>y. sep @ y) rest)"
  by (induction rest arbitrary: x) simp_all

section \<open>The response segmenter\<close>

text \<open>
  C1, as amended. Take a conversation with fewer than three assistant turns in
  which every assistant turn has an absent content or a clean string content.
  Then the segmenter raises nothing, the followup bucket is the empty string, and
  the assessment and action buckets hold the first and second assistant text,
  the empty string where there is no such turn.
\<close>

theorem segment_few_clean_turns:
  assumes "length (filter is_assistant conv) < 3"
    and "\<forall>m \<in> set conv. is_assistant m \<longrightarrow> clean_turn m"
  shows "segment conv =
         Inr \<lparr> assessment = nth_text (map text_of (filter is_assistant conv)) 0,
               action = nth_text (map text_of (filter is_assistant conv)) 1,
               followup = [] \<rparr>"
proof -
  let ?ts = "map text_of (filter is_assistant conv)"
  have full: "full_response conv = Inr (concat (map (\<lambda>t. t @ nn) ?ts))"
    using collect_clean [OF assms(2), of "[]"] by (simp add: full_response_def comp_def)
  have "\<forall>t \<in> set ?ts. clean_text t"
    using assms(2) by (auto simp: clean_turn_def text_of_def split: option.splits pyval.splits)
  then have "buckets (concat (map (\<lambda>t. t @ nn) ?ts)) =
      \<lparr> assessment = nth_text ?ts 0, action = nth_text ?ts 1, followup = nth_text ?ts 2 \<rparr>"
    by (rule buckets_of_blocks)
  moreover have "nth_text ?ts 2 = []"
    using assms(1) by (simp add: nth_text_def)
  ultimately show ?thesis
    using full by (simp add: segment_def)
qed

theorem segment_few_clean_turns_witness:
  "length (filter is_assistant
       [turn ''assistant'' ''A'',
        \<lparr> role = Some (PStr ''user''), content = Some PNone \<rparr>,
        \<lparr> role = Some (PStr ''assistant''), content = None \<rparr>]) = 2
   \<and> clean_turn (turn ''assistant'' ''A'')
   \<and> clean_turn \<lparr> role = Some (PStr ''assistant''), content = None \<rparr>
   \<and> segment
       [turn ''assistant'' ''A'',
        \<lparr> role = Some (PStr ''user''), content = Some PNone \<rparr>,
        \<lparr> role = Some (PStr ''assistant''), content = None \<rparr>]
     = Inr \<lparr> assessment = ''A'', action = [], followup = [] \<rparr>"
  using segment_few_clean_turns
    [of "[turn ''assistant'' ''A'',
          \<lparr> role = Some (PStr ''user''), content = Some PNone \<rparr>,
          \<lparr> role = Some (PStr ''assistant''), content = None \<rparr>]"]
  by (simp add: is_assistant_def clean_turn_def turn_def text_of_def nth_text_def nl_def)

text \<open>
  C1 as stated fails: a single assistant turn whose text holds the separator
  fills the action bucket, although the conversation has one assistant turn.
\<close>

theorem segment_embedded_separator_counterexample:
  "length (filter is_assistant [turn ''assistant'' (''X'' @ nn @ ''Y'')]) = 1
   \<and> segment [turn ''assistant'' (''X'' @ nn @ ''Y'')]
       = Inr \<lparr> assessment = ''X'', action = ''Y'', followup = [] \<rparr>
   \<and> ''Y'' \<noteq> ([] :: string)"
  by (simp add: is_assistant_def turn_def segment_def full_response_def content_block_def
      buckets_def split_py_def nn_def nl_def)

text \<open>
  C2, as amended. For the three assistant turns A, B, C the concatenation is
  every text followed by the separator, the last one included; its split has a
  fourth, empty fragment; the buckets are A, B and C.
\<close>

theorem abc_round_trip:
  "full_response abc_turns = Inr (''A'' @ nn @ ''B'' @ nn @ ''C'' @ nn)
   \<and> split_py (''A'' @ nn @ ''B'' @ nn @ ''C'' @ nn) nn = [''A'', ''B'', ''C'', []]
   \<and> segment abc_turns = Inr \<lparr> assessment = ''A'', action = ''B'', followup = ''C'' \<rparr>"
  by (simp add: abc_turns_def is_assistant_def turn_def segment_def full_response_def
      content_block_def buckets_def split_py_def nn_def nl_def)

text \<open>
  C2 as stated fails: the concatenation is not the three texts with the separator
  between them only.
\<close>

theorem abc_concatenation_counterexample:
  "full_response abc_turns \<noteq> Inr (''A'' @ nn @ ''B'' @ nn @ ''C'')"
  by (simp add: abc_turns_def is_assistant_def turn_def full_response_def content_block_def nn_def)

text \<open>
  C6. Two conversations with the same subsequence of assistant turns give the
  same result of the segmenter, the same buckets or the same exception.
\<close>

theorem segment_depends_on_assistant_turns:
  assumes "filter is_assistant c1 = filter is_assistant c2"
  shows "segment c1 = segment c2"
proof -
  have "collect [] c1 = collect [] c2"
    using assms collect_filter [of "[]" c1] collect_filter [of "[]" c2] by simp
  then show ?thesis
    by (simp add: segment_def full_response_def)
qed

theorem segment_depends_on_assistant_turns_witness:
  "filter is_assistant [turn ''user'' ''hello'', turn ''assistant'' ''A'']
     = filter is_assistant
         [turn ''assistant'' ''A'', turn ''action_agent'' ''B'',
          \<lparr> role = None, content = Some PNone \<rparr>]
   \<and> segment [turn ''user'' ''hello'', turn ''assistant'' ''A'']
     = segment [turn ''assistant'' ''A'', turn ''action_agent'' ''B'',
                \<lparr> role = None, content = Some PNone \<rparr>]"
  using segment_depends_on_assistant_turns
    [of "[turn ''user'' ''hello'', turn ''assistant'' ''A'']"
        "[turn ''assistant'' ''A'', turn ''action_agent'' ''B'',
          \<lparr> role = None, content = Some PNone \<rparr>]"]
  by (simp add: is_assistant_def turn_def)

text \<open>
  C7. A conversation without an assistant turn gives three empty buckets.
\<close>

theorem segment_no_assistant_turn:
  assumes "filter is_assistant conv = []"
  shows "segment conv = Inr \<lparr> assessment = [], action = [], followup = [] \<rparr>"
proof -
  have "collect [] conv = Inr []"
    using assms collect_filter [of "[]" conv] by simp
  then show ?thesis
    by (simp add: segment_def full_response_def buckets_def split_py_def)
qed

theorem segment_no_assistant_turn_witness:
  "filter is_assistant [turn ''user'' ''task'', turn ''assessment_agent'' ''text''] = []
   \<and> segment [turn ''user'' ''task'', turn ''assessment_agent'' ''text'']
     = Inr \<lparr> assessment = [], action = [], followup = [] \<rparr>"
  using segment_no_assistant_turn [of "[turn ''user'' ''task'', turn ''assessment_agent'' ''text'']"]
  by (simp add: is_assistant_def turn_def)

text \<open>
  C10. The split of any text on the separator has at least one fragment, and the
  assessment bucket is the first fragment: the alternative of line 184 that
  takes the whole text is never chosen.
\<close>

theorem split_has_first_fragment:
  "length (split_py full nn) > 0 \<and> assessment (buckets full) = hd (split_py full nn)"
  using split_from_nonempty [of nn "[]" full]
  by (cases "split_from nn [] full") (simp_all add: buckets_def split_py_def Let_def)

section \<open>The prompt formatter\<close>

text \<open>
  C4. The task is the template with the six values in place; the support-system
  field, after the label of its line and up to the end of the line, is the
  rendering of the selection in the words of the specification, and so is the
  symptoms field.
\<close>

theorem selection_fields_rendered:
  "format_task f =
     seg0 @ mental_state f @ seg1 @ sleep_pattern f @ seg2 @ str_int (stress_level f)
     @ seg3 @ spec_rendered_selection (support_system f)
     @ seg4 @ recent_changes f
     @ seg5 @ spec_rendered_selection (current_symptoms f) @ seg6
   \<and> suffix ''Support System: '' seg3 \<and> prefix [nl] seg4
   \<and> suffix ''Current Symptoms: '' seg5 \<and> prefix [nl] seg6"
proof -
  have r: "(if xs \<noteq> [] then join '', '' xs else ''None reported'') = spec_rendered_selection xs"
    for xs
  proof (cases xs)
    case Nil
    then show ?thesis by (simp add: spec_rendered_selection_def)
  next
    case (Cons x rest)
    then show ?thesis
      by (simp add: spec_rendered_selection_def join_comma comma_prefix)
  qed
  have "suffix ''Support System: '' seg3"
    unfolding seg3_def by (rule suffixI [of _ "''/10'' @ nl # ind"]) simp
  moreover have "suffix ''Current Symptoms: '' seg5"
    unfolding seg5_def by (rule suffixI [of _ "nl # ind"]) simp
  moreover have "prefix [nl] seg4" "prefix [nl] seg6"
    by (simp_all add: seg4_def seg6_def)
  ultimately show ?thesis
    by (simp add: format_task_def r)
qed

text \<open>
  C8. The task is a function of the six form values alone: two runs whose six
  values agree produce the same task, whatever else the runs hold (the
  credential, for one). The formatter returns a string and nothing else, so it
  has no effect on the session output or on what is shown.
\<close>

theorem format_task_reads_form_only:
  fixes f :: "'a intake_form_scheme" and g :: "'b intake_form_scheme"
  assumes "mental_state f = mental_state g" and "sleep_pattern f = sleep_pattern g"
    and "stress_level f = stress_level g" and "support_system f = support_system g"
    and "recent_changes f = recent_changes g" and "current_symptoms f = current_symptoms g"
  shows "format_task f = format_task g"
  using assms by (simp add: format_task_def)

theorem format_task_reads_form_only_witness:
  "format_task \<lparr> mental_state = ''tired'', sleep_pattern = ''7'', stress_level = 5,
                 support_system = [''Family''], recent_changes = ''moved'',
                 current_symptoms = [], api_key = ''key-one'' \<rparr>
   = format_task \<lparr> mental_state = ''tired'', sleep_pattern = ''7'', stress_level = 5,
                   support_system = [''Family''], recent_changes = ''moved'',
                   current_symptoms = [], api_key = ''key-two'' \<rparr>"
  using format_task_reads_form_only
    [of "\<lparr> mental_state = ''tired'', sleep_pattern = ''7'', stress_level = 5,
           support_system = [''Family''], recent_changes = ''moved'',
           current_symptoms = [], api_key = ''key-one'' \<rparr>"
        "\<lparr> mental_state = ''tired'', sleep_pattern = ''7'', stress_level = 5,
           support_system = [''Family''], recent_changes = ''moved'',
           current_symptoms = [], api_key = ''key-two'' \<rparr>"]
  by simp

text \<open>
  C9. The mood text and the recent-changes text each occur in the task as they
  were entered, as a contiguous part of it.
\<close>

theorem free_text_verbatim:
  "sublist (mental_state f) (format_task f) \<and> sublist (recent_changes f) (format_task f)"
proof
  show "sublist (mental_state f) (format_task f)"
    unfolding format_task_def by (rule sublist_appendI)
  have "format_task f =
      (seg0 @ mental_state f @ seg1 @ sleep_pattern f @ seg2 @ str_int (stress_level f)
        @ seg3 @ (if support_system f \<noteq> [] then join '', '' (support_system f)
               else ''None reported'') @ seg4)
      @ recent_changes f
      @ (seg5 @ (if current_symptoms f \<noteq> [] then join '', '' (current_symptoms f)
               else ''None reported'') @ seg6)"
    by (simp add: format_task_def)
  then show "sublist (recent_changes f) (format_task f)"
    by (metis sublist_appendI)
qed

section \<open>The submission handler\<close>

text \<open>
  C3. When formatting, invocation or segmentation raises, the handler leaves the
  session output as it was, all three buckets, and shows the two error panels.
\<close>

theorem failure_keeps_output:
  assumes "pipeline chat vars = Inl e"
  shows "get_support_plan chat vars out =
         (out, if api_key vars = [] then [ErrorPanel ''Please enter your OpenAI API key.'']
               else [Spinner spinner_label, ChatCall (api_key vars) (format_task vars),
                     ErrorPanel (''An error occurred: '' @ str_exc e),
                     ErrorPanel ''Please check your API key and try again.''])"
  using assms by (simp add: get_support_plan_def)

theorem failure_keeps_output_witness:
  "pipeline none_content_chat (sample_vars ''sk-test'') = Inl none_plus_str
   \<and> fst (get_support_plan none_content_chat (sample_vars ''sk-test'') previous_output)
       = previous_output
   \<and> length (snd (get_support_plan none_content_chat (sample_vars ''sk-test'') previous_output))
       = 4"
proof -
  have raised: "pipeline none_content_chat (sample_vars ''sk-test'') = Inl none_plus_str"
    by (simp add: pipeline_def none_content_chat_def segment_def full_response_def
        is_assistant_def content_block_def)
  have filled: "api_key (sample_vars ''sk-test'') \<noteq> []"
    by (simp add: sample_vars_def)
  show ?thesis
    using failure_keeps_output [OF raised, of previous_output] raised filled by simp
qed

text \<open>
  C5. With an empty credential the handler shows the credential message and does
  nothing else: no busy indicator, no call into the orchestration library, no
  panel of results, and the session output is the one it was given.
\<close>

theorem missing_credential_stops:
  assumes "api_key vars = []"
  shows "get_support_plan chat vars out =
         (out, [ErrorPanel ''Please enter your OpenAI API key.''])"
  using assms by (simp add: get_support_plan_def)

theorem missing_credential_stops_witness:
  "api_key (sample_vars []) = []
   \<and> get_support_plan abc_chat (sample_vars []) previous_output
       = (previous_output, [ErrorPanel ''Please enter your OpenAI API key.''])"
  using missing_credential_stops [of "sample_vars []" abc_chat previous_output]
  by (simp add: sample_vars_def)

end
